theory Spec2Isabelle
  imports Complex_Main
begin

section \<open>Numbers, errors and Python primitives\<close>

text \<open>
  The scripts compute with binary floating-point numbers (IEEE 754 binary64). The embedding
  reads them in two ways. In the first part every arithmetic operation is exact on the real
  numbers and the only rounding is the explicit \<^verbatim>\<open>round(z_height, 3)\<close> of the source; a decimal
  literal such as \<^verbatim>\<open>117.200\<close> is the fraction \<open>1172 / 10\<close>. This reading carries the
  statements about the structure of the table, the selection of trials and the labels. The
  second part (from \<open>expo\<close> and \<open>fl\<close> on) rounds every operation to the nearest binary64
  number as the machine does; it carries the statements that depend on how the numbers are
  rounded.
\<close>

datatype error = ZeroDivisionError | ValueError | IndexError

text \<open>Sequencing of fallible steps: the first raise ends the computation.\<close>

definition ebind :: "error + 'a \<Rightarrow> ('a \<Rightarrow> error + 'b) \<Rightarrow> error + 'b" where
  "ebind m f = (case m of Inl e \<Rightarrow> Inl e | Inr x \<Rightarrow> f x)"

text \<open>\<^verbatim>\<open>round(x)\<close> to an integer: to the nearest, a tie to the even neighbour.\<close>

definition py_round :: "real \<Rightarrow> int" where
  "py_round x =
     (let f = \<lfloor>x\<rfloor>; d = x - of_int f
      in if d < 1 / 2 then f
         else if 1 / 2 < d then f + 1
         else if even f then f else f + 1)"

text \<open>\<^verbatim>\<open>round(x, ndigits)\<close> for \<open>ndigits \<ge> 0\<close>.\<close>

definition round_ndigits :: "real \<Rightarrow> nat \<Rightarrow> real" where
  "round_ndigits x ndigits = of_int (py_round (x * 10 ^ ndigits)) / 10 ^ ndigits"

text \<open>Subscripting \<^verbatim>\<open>xs[i]\<close>: \<open>i\<close> from the front when it is not negative, \<open>len(xs) + i\<close>
  otherwise; IndexError outside the list.\<close>

definition py_index :: "'a list \<Rightarrow> int \<Rightarrow> error + 'a" where
  "py_index xs i =
     (if 0 \<le> i \<and> i < int (length xs) then Inr (xs ! nat i)
      else if i < 0 \<and> - int (length xs) \<le> i then Inr (xs ! nat (int (length xs) + i))
      else Inl IndexError)"

text \<open>\<^verbatim>\<open>max(xs)\<close>, \<^verbatim>\<open>min(xs)\<close>, \<^verbatim>\<open>np.max\<close> and \<^verbatim>\<open>np.min\<close>: a left-to-right scan, an empty
  sequence raises ValueError.\<close>

definition py_max :: "real list \<Rightarrow> error + real" where
  "py_max xs = (case xs of [] \<Rightarrow> Inl ValueError | x # rest \<Rightarrow> Inr (fold max rest x))"

definition py_min :: "real list \<Rightarrow> error + real" where
  "py_min xs = (case xs of [] \<Rightarrow> Inl ValueError | x # rest \<Rightarrow> Inr (fold min rest x))"

section \<open>Data model\<close>

text \<open>One trial's fit \<^verbatim>\<open>{'slope': .., 'intercept': .., 'r_squared': ..}\<close>.\<close>

record TrialFit =
  slope :: real
  intercept :: real
  r_squared :: real

text \<open>A cell's dict from trial name to fit, in insertion order (the order \<^verbatim>\<open>.items()\<close> and
  \<^verbatim>\<open>.values()\<close> iterate in).\<close>

type_synonym cell = "(string \<times> TrialFit) list"

section \<open>Z-height inversion\<close>

text \<open>\<^verbatim>\<open>calculate_z_height\<close>: \<^verbatim>\<open>z_height = (torque - intercept) / slope\<close>, then
  \<^verbatim>\<open>round(z_height, 3)\<close>. A zero slope has no quotient: Python's division raises
  ZeroDivisionError there (with a numpy scalar as operand the same expression gives an infinity
  or a NaN and a warning). The model has no such values and records the zero slope as the
  error value.\<close>

definition calculate_z_height :: "real \<Rightarrow> real \<Rightarrow> real \<Rightarrow> error + real" where
  "calculate_z_height torque slope' intercept' =
     (if slope' = 0 then Inl ZeroDivisionError
      else Inr (round_ndigits ((torque - intercept') / slope') 3))"

section \<open>Per-cell uncertainty table\<close>

text \<open>
  The variables the analysis touches: the cell's fits (the argument \<^verbatim>\<open>cell_equations\<close>; in
  \<^verbatim>\<open>Uncertainity.py\<close> the global \<^verbatim>\<open>cell_1_equations\<close>), the global \<^verbatim>\<open>torque_levels\<close>, and
  the list \<^verbatim>\<open>results_data\<close> the loop appends its rows to.
\<close>

record env =
  cell_equations :: cell
  torque_levels :: "real list"
  results_data :: "real list list"

text \<open>The inner loop \<^verbatim>\<open>for trial_name, eq_data in cell_equations.items()\<close>: each Z-height is
  appended to \<^verbatim>\<open>row_data\<close> and to \<^verbatim>\<open>z_heights_for_torque\<close>.\<close>

fun trial_loop :: "real \<Rightarrow> cell \<Rightarrow> real list \<times> real list \<Rightarrow> error + (real list \<times> real list)" where
  "trial_loop torque [] acc = Inr acc"
| "trial_loop torque ((trial_name, eq_data) # rest) (row_data, z_heights_for_torque) =
     ebind (calculate_z_height torque (slope eq_data) (intercept eq_data))
       (\<lambda>z_height. trial_loop torque rest
          (row_data @ [z_height], z_heights_for_torque @ [z_height]))"

text \<open>\<^verbatim>\<open>steepest_slope = max([eq_data['slope'] for eq_data in cell_equations.values()])\<close>.\<close>

definition steepest_slope :: "cell \<Rightarrow> error + real" where
  "steepest_slope cell_eqs = py_max (map (\<lambda>(trial_name, eq_data). slope eq_data) cell_eqs)"

text \<open>\<^verbatim>\<open>steepest_trial = [name for name, eq_data in cell_equations.items()
  if eq_data['slope'] == steepest_slope][0]\<close>.\<close>

definition steepest_trial :: "cell \<Rightarrow> error + string" where
  "steepest_trial cell_eqs =
     ebind (steepest_slope cell_eqs)
       (\<lambda>s. py_index (map fst (filter (\<lambda>(name, eq_data). slope eq_data = s) cell_eqs)) 0)"

text \<open>The body of \<^verbatim>\<open>for torque in torque_levels\<close>: one row
  \<^verbatim>\<open>[torque, z_1, .., z_n, min_val, max_val, range_val, torque_uncertainty]\<close> is appended to
  \<^verbatim>\<open>results_data\<close>. The inline loop of \<^verbatim>\<open>Uncertainity.py\<close> is the same computation on
  \<^verbatim>\<open>cell_1_equations\<close>; it also selects \<^verbatim>\<open>steepest_trial\<close> in each iteration, for printing.\<close>

definition loop_body :: "real \<Rightarrow> env \<Rightarrow> error + env" where
  "loop_body torque s =
     ebind (trial_loop torque (cell_equations s) ([torque], []))
       (\<lambda>(row_data, z_heights_for_torque).
     ebind (py_min z_heights_for_torque) (\<lambda>min_val.
     ebind (py_max z_heights_for_torque) (\<lambda>max_val.
     let range_val = max_val - min_val in
     ebind (steepest_slope (cell_equations s)) (\<lambda>steepest.
     let torque_uncertainty = steepest * range_val in
     Inr (s\<lparr>results_data := results_data s @
            [row_data @ [min_val, max_val, range_val, torque_uncertainty]]\<rparr>)))))"

fun torque_loop :: "real list \<Rightarrow> env \<Rightarrow> error + env" where
  "torque_loop [] s = Inr s"
| "torque_loop (torque # rest) s = ebind (loop_body torque s) (torque_loop rest)"

text \<open>\<^verbatim>\<open>analyze_cell_uncertainty\<close>: \<^verbatim>\<open>results_data = []\<close>, the loop over the torque levels, and
  the table is in \<^verbatim>\<open>results_data\<close> of the final state.\<close>

definition analyze_cell_uncertainty :: "env \<Rightarrow> error + env" where
  "analyze_cell_uncertainty s = torque_loop (torque_levels s) (s\<lparr>results_data := []\<rparr>)"

section \<open>Status labels\<close>

text \<open>\<^verbatim>\<open>Uncertainity.py\<close>, per torque level:
  \<^verbatim>\<open>"LOW" if uncertainty < 0.2 else "MEDIUM" if uncertainty < 0.5 else "HIGH"\<close>.\<close>

definition status_per_torque :: "real \<Rightarrow> string" where
  "status_per_torque uncertainty =
     (if uncertainty < 2 / 10 then ''LOW''
      else if uncertainty < 5 / 10 then ''MEDIUM''
      else ''HIGH'')"

text \<open>\<^verbatim>\<open>R2_Uncertainity10K.py\<close>, per cell, on the largest uncertainty of its table.\<close>

definition status_performance :: "real \<Rightarrow> string" where
  "status_performance max_uncertainty =
     (if max_uncertainty < 5 then ''EXCELLENT''
      else if max_uncertainty < 10 then ''GOOD''
      else if max_uncertainty < 20 then ''ACCEPTABLE''
      else ''NEEDS ATTENTION'')"

section \<open>Reference notions for the statements\<close>

text \<open>The inverted Z-heights of a cell's trials at one torque level, in trial order, as the
  quotient and rounding of \<^verbatim>\<open>calculate_z_height\<close> give them when no slope is zero.\<close>

definition z_heights :: "real \<Rightarrow> cell \<Rightarrow> real list" where
  "z_heights torque cell_eqs =
     map (\<lambda>(trial_name, eq_data).
            round_ndigits ((torque - intercept eq_data) / slope eq_data) 3) cell_eqs"

definition slopes :: "cell \<Rightarrow> real list" where
  "slopes cell_eqs = map (\<lambda>(trial_name, eq_data). slope eq_data) cell_eqs"

definition nonzero_slopes :: "cell \<Rightarrow> bool" where
  "nonzero_slopes cell_eqs = list_all (\<lambda>m. m \<noteq> 0) (slopes cell_eqs)"

text \<open>The row the loop body builds for one torque level, written with the set-based minimum
  and maximum.\<close>

definition table_row :: "real \<Rightarrow> cell \<Rightarrow> real list" where
  "table_row torque cell_eqs =
     (let zs = z_heights torque cell_eqs; mn = Min (set zs); mx = Max (set zs)
      in torque # zs @ [mn, mx, mx - mn, Max (set (slopes cell_eqs)) * (mx - mn)])"

text \<open>The uncertainty as the specification words it: the largest slope magnitude of the cell
  times the spread of the Z-heights at the torque level.\<close>

definition spec_uncertainty :: "real \<Rightarrow> cell \<Rightarrow> real" where
  "spec_uncertainty torque cell_eqs =
     Max (set (map abs (slopes cell_eqs))) *
       (Max (set (z_heights torque cell_eqs)) - Min (set (z_heights torque cell_eqs)))"

section \<open>The data of \<^verbatim>\<open>Uncertainity.py\<close>\<close>

text \<open>\<^verbatim>\<open>all_cells_equations['Cell 1']\<close> and \<^verbatim>\<open>torque_levels\<close> of \<^verbatim>\<open>Uncertainity.py\<close>.\<close>

definition cell_1_equations :: cell where
  "cell_1_equations =
     [(''Trial 1'', \<lparr>slope = 117200 / 1000, intercept = - 7722002 / 1000, r_squared = 998 / 1000\<rparr>),
      (''Trial 2'', \<lparr>slope = 91571 / 1000, intercept = - 6008560 / 1000, r_squared = 992 / 1000\<rparr>),
      (''Trial 3'', \<lparr>slope = 92900 / 1000, intercept = - 6105849 / 1000, r_squared = 991 / 1000\<rparr>),
      (''Trial 4'', \<lparr>slope = 89057 / 1000, intercept = - 5849702 / 1000, r_squared = 986 / 1000\<rparr>)]"

definition cell_1_env :: env where
  "cell_1_env = \<lparr>cell_equations = cell_1_equations, torque_levels = [45, 47, 49, 51, 53],
     results_data = []\<rparr>"

text \<open>The table the loop computes for Cell 1 (one row per torque level).\<close>

definition cell_1_results :: "real list list" where
  "cell_1_results =
      [[45, 66271 / 1000, 66108 / 1000, 66209 / 1000, 66190 / 1000,
        66108 / 1000, 66271 / 1000, 163 / 1000, 191036 / 10000],
       [47, 66288 / 1000, 66130 / 1000, 66231 / 1000, 66213 / 1000,
        66130 / 1000, 66288 / 1000, 158 / 1000, 185176 / 10000],
       [49, 66305 / 1000, 66152 / 1000, 66252 / 1000, 66235 / 1000,
        66152 / 1000, 66305 / 1000, 153 / 1000, 179316 / 10000],
       [51, 66323 / 1000, 66173 / 1000, 66274 / 1000, 66258 / 1000,
        66173 / 1000, 66323 / 1000, 150 / 1000, 175800 / 10000],
       [53, 66340 / 1000, 66195 / 1000, 66295 / 1000, 66280 / 1000,
        66195 / 1000, 66340 / 1000, 145 / 1000, 169940 / 10000]]"

text \<open>A cell whose fits all fall (negative slopes), and a cell where two trials share the
  largest slope.\<close>

definition falling_cell :: cell where
  "falling_cell =
     [(''Trial 1'', \<lparr>slope = - 5, intercept = 0, r_squared = 1\<rparr>),
      (''Trial 2'', \<lparr>slope = - 2, intercept = 0, r_squared = 1\<rparr>)]"

definition tied_cell :: cell where
  "tied_cell =
     [(''Trial 1'', \<lparr>slope = 1, intercept = 0, r_squared = 1\<rparr>),
      (''Trial 2'', \<lparr>slope = 3, intercept = 0, r_squared = 1\<rparr>),
      (''Trial 3'', \<lparr>slope = 3, intercept = 5, r_squared = 1\<rparr>)]"

section \<open>Binary64 arithmetic\<close>

text \<open>Powers of two with an integer exponent.\<close>

definition pow2 :: "int \<Rightarrow> real" where
  "pow2 e = (if 0 \<le> e then 2 ^ nat e else 1 / 2 ^ nat (- e))"

text \<open>The binary exponent of a positive number: \<open>2 ^ e \<le> x < 2 ^ (e + 1)\<close>, found by halving
  or doubling.\<close>

function expo :: "real \<Rightarrow> int" where
  "expo x = (if 2 \<le> x then expo (x / 2) + 1
             else if 0 < x \<and> x < 1 then expo (x * 2) - 1
             else 0)"
  by pat_completeness auto
termination
proof (relation "measure (\<lambda>x. nat \<bar>\<lfloor>log 2 x\<rfloor>\<bar>)")
  show "wf (measure (\<lambda>x. nat \<bar>\<lfloor>log 2 x\<rfloor>\<bar>))" by simp
next
  fix x :: real
  assume x: "2 \<le> x"
  then have "log 2 (x / 2) = log 2 x - 1" by (simp add: log_divide)
  then have 1: "\<lfloor>log 2 (x / 2)\<rfloor> = \<lfloor>log 2 x\<rfloor> - 1" by simp
  from x have "1 \<le> log 2 x" by (simp add: le_log_iff)
  then have 2: "1 \<le> \<lfloor>log 2 x\<rfloor>" by (simp add: le_floor_iff)
  from 1 2 show "(x / 2, x) \<in> measure (\<lambda>x. nat \<bar>\<lfloor>log 2 x\<rfloor>\<bar>)" by simp
next
  fix x :: real
  assume "\<not> 2 \<le> x" and x: "0 < x \<and> x < 1"
  then have "log 2 (x * 2) = log 2 x + 1" by (simp add: log_mult)
  then have 1: "\<lfloor>log 2 (x * 2)\<rfloor> = \<lfloor>log 2 x\<rfloor> + 1" by simp
  from x have "log 2 x < 0" by simp
  then have 2: "\<lfloor>log 2 x\<rfloor> < 0" by (simp add: floor_less_iff)
  have "\<bar>\<lfloor>log 2 x\<rfloor> + 1\<bar> < \<bar>\<lfloor>log 2 x\<rfloor>\<bar>" using 2 by linarith
  with 1 2 show "(x * 2, x) \<in> measure (\<lambda>x. nat \<bar>\<lfloor>log 2 x\<rfloor>\<bar>)" by simp
qed

declare expo.simps [simp del]

text \<open>
  Rounding of a real number to the nearest binary64 number, ties to the even significand: 53
  significant bits, and below \<open>2 ^ - 1022\<close> the fixed spacing \<open>2 ^ - 1074\<close> of the subnormal
  numbers. Every arithmetic operation of the source on floats is this rounding applied to the
  exact result; a decimal literal \<^verbatim>\<open>117.200\<close> denotes \<open>fl (1172 / 10)\<close>. The exponent is not
  bounded above (results beyond the largest binary64 number, where the machine gives an
  infinity, are not modelled), and there is one zero, the positive one.
\<close>

definition fl :: "real \<Rightarrow> real" where
  "fl x =
     (if x = 0 then 0
      else let e = max (expo \<bar>x\<bar>) (- 1022); ulp = pow2 (e - 52)
           in of_int (py_round (x / ulp)) * ulp)"

text \<open>\<^verbatim>\<open>round(x, ndigits)\<close> of a Python float (\<^verbatim>\<open>float.__round__\<close>): the decimal number with
  \<open>ndigits\<close> places nearest to the exact value of \<open>x\<close>, ties to the even digit, then the
  binary64 number nearest to that decimal.\<close>

definition round_ndigits_f64 :: "real \<Rightarrow> nat \<Rightarrow> real" where
  "round_ndigits_f64 x ndigits = fl (of_int (py_round (x * 10 ^ ndigits)) / 10 ^ ndigits)"

text \<open>\<^verbatim>\<open>round(x, decimals)\<close> of a numpy scalar (\<^verbatim>\<open>np.float64.__round__\<close>, the method
  \<^verbatim>\<open>ndarray.round\<close>): \<^verbatim>\<open>rint(x * 10**decimals) / 10**decimals\<close>, each step in binary64.\<close>

definition np_round :: "real \<Rightarrow> nat \<Rightarrow> real" where
  "np_round x decimals = fl (of_int (py_round (fl (x * 10 ^ decimals))) / 10 ^ decimals)"

text \<open>A numpy \<^verbatim>\<open>float64\<close> scalar: a finite number, an infinity or a NaN.\<close>

datatype np_float64 = Finite real | PosInf | NegInf | NaN

text \<open>Division of a numpy scalar by a float: a zero divisor does not raise, the result is an
  infinity with the sign of the dividend, or NaN for \<^verbatim>\<open>0 / 0\<close> (numpy reports a
  RuntimeWarning and goes on).\<close>

definition np_truediv :: "real \<Rightarrow> real \<Rightarrow> np_float64" where
  "np_truediv a b =
     (if b = 0 then (if 0 < a then PosInf else if a < 0 then NegInf else NaN)
      else Finite (fl (a / b)))"

text \<open>Rounding leaves an infinity or a NaN as it is.\<close>

definition np_round_ndigits :: "np_float64 \<Rightarrow> nat \<Rightarrow> np_float64" where
  "np_round_ndigits v ndigits = (case v of Finite x \<Rightarrow> Finite (np_round x ndigits) | _ \<Rightarrow> v)"

text \<open>
  \<^verbatim>\<open>calculate_z_height\<close> in binary64. Called with Python numbers, the division raises
  ZeroDivisionError for a zero slope and the result is rounded by \<^verbatim>\<open>float.__round__\<close>:
  \<open>calculate_z_height_f64\<close>. Both scripts call it with \<^verbatim>\<open>torque\<close> an element of the array
  \<^verbatim>\<open>torque_levels\<close>, a numpy scalar; then \<^verbatim>\<open>torque - intercept\<close> is a numpy scalar, the division
  and the rounding are numpy's, and nothing is raised: \<open>calculate_z_height_np\<close>.
\<close>

definition calculate_z_height_f64 :: "real \<Rightarrow> real \<Rightarrow> real \<Rightarrow> error + real" where
  "calculate_z_height_f64 torque slope' intercept' =
     (if slope' = 0 then Inl ZeroDivisionError
      else Inr (round_ndigits_f64 (fl (fl (torque - intercept') / slope')) 3))"

definition calculate_z_height_np :: "real \<Rightarrow> real \<Rightarrow> real \<Rightarrow> np_float64" where
  "calculate_z_height_np torque slope' intercept' =
     np_round_ndigits (np_truediv (fl (torque - intercept')) slope') 3"

text \<open>\<^verbatim>\<open>np.min\<close> and \<^verbatim>\<open>np.max\<close> of an array: a NaN element makes the result NaN; an empty array
  raises ValueError.\<close>

fun np_minimum :: "np_float64 \<Rightarrow> np_float64 \<Rightarrow> np_float64" where
  "np_minimum NaN b = NaN"
| "np_minimum a NaN = NaN"
| "np_minimum NegInf b = NegInf"
| "np_minimum a NegInf = NegInf"
| "np_minimum PosInf b = b"
| "np_minimum a PosInf = a"
| "np_minimum (Finite a) (Finite b) = Finite (min a b)"

fun np_maximum :: "np_float64 \<Rightarrow> np_float64 \<Rightarrow> np_float64" where
  "np_maximum NaN b = NaN"
| "np_maximum a NaN = NaN"
| "np_maximum PosInf b = PosInf"
| "np_maximum a PosInf = PosInf"
| "np_maximum NegInf b = b"
| "np_maximum a NegInf = a"
| "np_maximum (Finite a) (Finite b) = Finite (max a b)"

definition np_amin :: "np_float64 list \<Rightarrow> error + np_float64" where
  "np_amin zs = (case zs of [] \<Rightarrow> Inl ValueError | z # rest \<Rightarrow> Inr (fold np_minimum rest z))"

definition np_amax :: "np_float64 list \<Rightarrow> error + np_float64" where
  "np_amax zs = (case zs of [] \<Rightarrow> Inl ValueError | z # rest \<Rightarrow> Inr (fold np_maximum rest z))"

text \<open>\<^verbatim>\<open>max_val - min_val\<close> on numpy scalars, and \<^verbatim>\<open>steepest_slope * range_val\<close> of a float and
  a numpy scalar.\<close>

fun np_subtract :: "np_float64 \<Rightarrow> np_float64 \<Rightarrow> np_float64" where
  "np_subtract (Finite a) (Finite b) = Finite (fl (a - b))"
| "np_subtract NaN b = NaN"
| "np_subtract a NaN = NaN"
| "np_subtract PosInf PosInf = NaN"
| "np_subtract NegInf NegInf = NaN"
| "np_subtract PosInf b = PosInf"
| "np_subtract NegInf b = NegInf"
| "np_subtract (Finite a) PosInf = NegInf"
| "np_subtract (Finite a) NegInf = PosInf"

definition np_multiply :: "real \<Rightarrow> np_float64 \<Rightarrow> np_float64" where
  "np_multiply a v =
     (case v of
        Finite b \<Rightarrow> Finite (fl (a * b))
      | PosInf \<Rightarrow> (if 0 < a then PosInf else if a < 0 then NegInf else NaN)
      | NegInf \<Rightarrow> (if 0 < a then NegInf else if a < 0 then PosInf else NaN)
      | NaN \<Rightarrow> NaN)"

text \<open>The body of the loop over the torque levels as the scripts run it, with numpy scalars:
  the row \<^verbatim>\<open>[torque, z_1, .., z_n, min_val, max_val, range_val, torque_uncertainty]\<close>. A zero
  slope gives an infinite or NaN Z-height and the row is still built.\<close>

definition loop_body_np :: "real \<Rightarrow> cell \<Rightarrow> error + np_float64 list" where
  "loop_body_np torque cell_eqs =
     (let z_heights_for_torque =
            map (\<lambda>(trial_name, eq_data).
                   calculate_z_height_np torque (slope eq_data) (intercept eq_data)) cell_eqs;
          row_data = Finite torque # z_heights_for_torque
      in ebind (np_amin z_heights_for_torque) (\<lambda>min_val.
         ebind (np_amax z_heights_for_torque) (\<lambda>max_val.
         let range_val = np_subtract max_val min_val in
         ebind (steepest_slope cell_eqs) (\<lambda>steepest.
         let torque_uncertainty = np_multiply steepest range_val in
         Inr (row_data @ [min_val, max_val, range_val, torque_uncertainty])))))"

text \<open>The loop over the torque levels: the rows in order.\<close>

fun analyze_cell_uncertainty_np :: "cell \<Rightarrow> real list \<Rightarrow> error + np_float64 list list" where
  "analyze_cell_uncertainty_np cell_eqs [] = Inr []"
| "analyze_cell_uncertainty_np cell_eqs (torque # rest) =
     ebind (loop_body_np torque cell_eqs) (\<lambda>row_data.
     ebind (analyze_cell_uncertainty_np cell_eqs rest) (\<lambda>rows. Inr (row_data # rows)))"

text \<open>A cell's decimal literals read as binary64 numbers.\<close>

definition as_f64 :: "cell \<Rightarrow> cell" where
  "as_f64 cell_eqs =
     map (\<lambda>(trial_name, eq_data).
            (trial_name, \<lparr>slope = fl (slope eq_data), intercept = fl (intercept eq_data),
                          r_squared = fl (r_squared eq_data)\<rparr>)) cell_eqs"

text \<open>The table of Cell 1 in binary64 (the ranges and uncertainties written as exact binary
  fractions; they print as 0.1629999999999967, 19.103599999999613 and so on).\<close>

definition cell_1_results_np :: "np_float64 list list" where
  "cell_1_results_np =
      [[Finite 45, Finite (fl (66271 / 1000)), Finite (fl (66108 / 1000)), Finite (fl (66209 / 1000)), Finite (fl (66190 / 1000)),
        Finite (fl (66108 / 1000)), Finite (fl (66271 / 1000)),
        Finite (11470105300959 / 2 ^ 46), Finite (5377185365089579 / 2 ^ 48)],
       [Finite 47, Finite (fl (66288 / 1000)), Finite (fl (66130 / 1000)), Finite (fl (66231 / 1000)), Finite (fl (66213 / 1000)),
        Finite (fl (66130 / 1000)), Finite (fl (66288 / 1000)),
        Finite (11118261580071 / 2 ^ 46), Finite (5212241028737285 / 2 ^ 48)],
       [Finite 49, Finite (fl (66305 / 1000)), Finite (fl (66152 / 1000)), Finite (fl (66252 / 1000)), Finite (fl (66235 / 1000)),
        Finite (fl (66152 / 1000)), Finite (fl (66305 / 1000)),
        Finite (10766417859183 / 2 ^ 46), Finite (5047296692384991 / 2 ^ 48)],
       [Finite 51, Finite (fl (66323 / 1000)), Finite (fl (66173 / 1000)), Finite (fl (66274 / 1000)), Finite (fl (66258 / 1000)),
        Finite (fl (66173 / 1000)), Finite (fl (66323 / 1000)),
        Finite (10555311626649 / 2 ^ 46), Finite (4948330090573051 / 2 ^ 48)],
       [Finite 53, Finite (fl (66340 / 1000)), Finite (fl (66195 / 1000)), Finite (fl (66295 / 1000)), Finite (fl (66280 / 1000)),
        Finite (fl (66195 / 1000)), Finite (fl (66340 / 1000)),
        Finite (5101733952881 / 2 ^ 45), Finite (2391692877110613 / 2 ^ 47)]]"

section \<open>Rounding\<close>

lemma py_round_near: "\<bar>of_int (py_round x) - x\<bar> \<le> 1 / 2"
proof -
  have "of_int \<lfloor>x\<rfloor> \<le> x" "x < of_int \<lfloor>x\<rfloor> + 1" by linarith+
  then show ?thesis by (auto simp: py_round_def Let_def)
qed

lemma py_round_tie: "\<bar>of_int (py_round x) - x\<bar> = 1 / 2 \<Longrightarrow> even (py_round x)"
proof -
  assume a: "\<bar>of_int (py_round x) - x\<bar> = 1 / 2"
  have f: "of_int \<lfloor>x\<rfloor> \<le> x" "x < of_int \<lfloor>x\<rfloor> + 1" by linarith+
  show ?thesis
  proof (cases "x - of_int \<lfloor>x\<rfloor> = 1 / 2")
    case True
    then show ?thesis by (simp add: py_round_def Let_def)
  next
    case False
    with a f show ?thesis by (auto simp: py_round_def Let_def split: if_splits)
  qed
qed

lemma round_ndigits_grid: "round_ndigits x 3 = of_int (py_round (x * 1000)) / 1000"
  by (simp add: round_ndigits_def)

lemma round_ndigits_near: "\<bar>round_ndigits x 3 - x\<bar> \<le> 1 / 2000"
proof -
  have "\<bar>of_int (py_round (x * 1000)) - x * 1000\<bar> \<le> 1 / 2" by (rule py_round_near)
  then show ?thesis unfolding round_ndigits_grid by (simp add: field_simps abs_le_iff)
qed

lemma round_ndigits_tie:
  "\<bar>round_ndigits x 3 - x\<bar> = 1 / 2000 \<Longrightarrow> even (py_round (x * 1000))"
proof -
  assume "\<bar>round_ndigits x 3 - x\<bar> = 1 / 2000"
  then have "\<bar>of_int (py_round (x * 1000)) - x * 1000\<bar> = 1 / 2"
    unfolding round_ndigits_grid by (simp add: field_simps abs_if split: if_splits)
  then show ?thesis by (rule py_round_tie)
qed

section \<open>The worked example of the inversion\<close>

text \<open>
  C3, as the specification states it, does not hold: for slope 117.200, intercept -7722.002 and
  torque 45 the result is not 66.267.
\<close>

theorem calculate_z_height_example_not_66_267:
  "calculate_z_height 45 (117200 / 1000) (- 7722002 / 1000) \<noteq> Inr (66267 / 1000)"
  by (simp add: calculate_z_height_def round_ndigits_def py_round_def Let_def)

text \<open>
  C3, amended: for slope 117.200, intercept -7722.002 and torque 45 the inversion returns
  66.271, the quotient 7767.002 / 117.200 = 66.27134... rounded to three decimal places.
\<close>

theorem calculate_z_height_example:
  "calculate_z_height 45 (117200 / 1000) (- 7722002 / 1000) = Inr (66271 / 1000)"
  by (simp add: calculate_z_height_def round_ndigits_def py_round_def Let_def)

section \<open>What the loops compute\<close>

lemma ebind_Inr [simp]: "ebind (Inr x) f = f x" by (simp add: ebind_def)
lemma ebind_Inl [simp]: "ebind (Inl e) f = Inl e" by (simp add: ebind_def)

lemma py_min_eq: "py_min zs = (if zs = [] then Inl ValueError else Inr (Min (set zs)))"
  by (cases zs) (simp_all add: py_min_def Min.set_eq_fold [symmetric])

lemma py_max_eq: "py_max zs = (if zs = [] then Inl ValueError else Inr (Max (set zs)))"
  by (cases zs) (simp_all add: py_max_def Max.set_eq_fold [symmetric])

lemma slopes_Nil [simp]: "slopes cell_eqs = [] \<longleftrightarrow> cell_eqs = []"
  by (simp add: slopes_def)

lemma z_heights_Nil [simp]: "z_heights torque cell_eqs = [] \<longleftrightarrow> cell_eqs = []"
  by (simp add: z_heights_def)

lemma trial_loop_eq:
  "trial_loop torque cell_eqs (row_data, zs) =
     (if nonzero_slopes cell_eqs
      then Inr (row_data @ z_heights torque cell_eqs, zs @ z_heights torque cell_eqs)
      else Inl ZeroDivisionError)"
proof (induction cell_eqs arbitrary: row_data zs)
  case Nil
  show ?case by (simp add: nonzero_slopes_def slopes_def z_heights_def)
next
  case (Cons p rest)
  obtain name eq_data where p: "p = (name, eq_data)" by (cases p)
  show ?case
  proof (cases "slope eq_data = 0")
    case True
    then show ?thesis
      by (simp add: p calculate_z_height_def nonzero_slopes_def slopes_def)
  next
    case False
    then show ?thesis
      using Cons.IH by (simp add: p calculate_z_height_def nonzero_slopes_def slopes_def z_heights_def)
  qed
qed

lemma loop_body_eq:
  "loop_body torque s =
     (if \<not> nonzero_slopes (cell_equations s) then Inl ZeroDivisionError
      else if cell_equations s = [] then Inl ValueError
      else Inr (s\<lparr>results_data := results_data s @ [table_row torque (cell_equations s)]\<rparr>))"
  by (simp add: loop_body_def trial_loop_eq py_min_eq py_max_eq steepest_slope_def
      slopes_def [symmetric] table_row_def Let_def)

lemma torque_loop_eq:
  "torque_loop ts s =
     (if ts = [] then Inr s
      else if \<not> nonzero_slopes (cell_equations s) then Inl ZeroDivisionError
      else if cell_equations s = [] then Inl ValueError
      else Inr (s\<lparr>results_data := results_data s @ map (\<lambda>t. table_row t (cell_equations s)) ts\<rparr>))"
proof (induction ts arbitrary: s)
  case Nil show ?case by simp
next
  case (Cons t rest)
  show ?case by (simp add: loop_body_eq Cons.IH)
qed

lemma analyze_eq:
  "analyze_cell_uncertainty s =
     (if torque_levels s = [] then Inr (s\<lparr>results_data := []\<rparr>)
      else if \<not> nonzero_slopes (cell_equations s) then Inl ZeroDivisionError
      else if cell_equations s = [] then Inl ValueError
      else Inr (s\<lparr>results_data := map (\<lambda>t. table_row t (cell_equations s)) (torque_levels s)\<rparr>))"
  by (simp add: analyze_cell_uncertainty_def torque_loop_eq)

lemma analyze_rows:
  assumes "analyze_cell_uncertainty s = Inr s'"
  shows "cell_equations s' = cell_equations s"
    and "torque_levels s' = torque_levels s"
    and "results_data s' = map (\<lambda>t. table_row t (cell_equations s)) (torque_levels s)"
    and "torque_levels s \<noteq> [] \<Longrightarrow> nonzero_slopes (cell_equations s) \<and> cell_equations s \<noteq> []"
  using assms by (auto simp: analyze_eq split: if_splits)

lemma analyze_defined:
  assumes "nonzero_slopes (cell_equations s)" "cell_equations s \<noteq> []"
  shows "\<exists>s'. analyze_cell_uncertainty s = Inr s'"
  using assms by (simp add: analyze_eq)

lemma py_index_last4:
  "py_index (pre @ [a, b, c, d]) (- 1) = Inr d"
  "py_index (pre @ [a, b, c, d]) (- 2) = Inr c"
  "py_index (pre @ [a, b, c, d]) (- 3) = Inr b"
  "py_index (pre @ [a, b, c, d]) (- 4) = Inr a"
  by (simp_all add: py_index_def nth_append nat_add_distrib)

lemma table_row_index:
  "py_index (table_row t c) (- 1) =
     Inr (Max (set (slopes c)) * (Max (set (z_heights t c)) - Min (set (z_heights t c))))"
  "py_index (table_row t c) (- 2) = Inr (Max (set (z_heights t c)) - Min (set (z_heights t c)))"
proof -
  have "table_row t c = (t # z_heights t c) @
      [Min (set (z_heights t c)), Max (set (z_heights t c)),
       Max (set (z_heights t c)) - Min (set (z_heights t c)),
       Max (set (slopes c)) * (Max (set (z_heights t c)) - Min (set (z_heights t c)))]"
    by (simp add: table_row_def Let_def)
  then show
    "py_index (table_row t c) (- 1) =
       Inr (Max (set (slopes c)) * (Max (set (z_heights t c)) - Min (set (z_heights t c))))"
    "py_index (table_row t c) (- 2) = Inr (Max (set (z_heights t c)) - Min (set (z_heights t c)))"
    by (simp_all only: py_index_last4)
qed

lemma steepest_slope_eq:
  "steepest_slope c = (if c = [] then Inl ValueError else Inr (Max (set (slopes c))))"
  by (simp add: steepest_slope_def slopes_def [symmetric] py_max_eq)

lemma steepest_nonzero:
  assumes "nonzero_slopes c" "c \<noteq> []"
  shows "Max (set (slopes c)) \<noteq> 0"
proof -
  from assms(2) have "Max (set (slopes c)) \<in> set (slopes c)" by (intro Max_in) simp_all
  with assms(1) show ?thesis by (auto simp: nonzero_slopes_def list_all_iff)
qed

lemma cell_1_table:
  "analyze_cell_uncertainty cell_1_env = Inr (cell_1_env\<lparr>results_data := cell_1_results\<rparr>)"
  by (simp add: analyze_cell_uncertainty_def loop_body_def cell_1_env_def cell_1_equations_def
      cell_1_results_def calculate_z_height_def round_ndigits_def py_round_def Let_def
      py_min_def py_max_def steepest_slope_def)

lemma row_uncertainty:
  assumes "analyze_cell_uncertainty s = Inr s'" and "i < length (results_data s')"
  shows "py_index (results_data s' ! i) (- 1) =
           Inr (Max (set (slopes (cell_equations s))) *
                (Max (set (z_heights (torque_levels s ! i) (cell_equations s))) -
                 Min (set (z_heights (torque_levels s ! i) (cell_equations s)))))"
  using assms by (simp add: analyze_rows(3) table_row_index)

lemma spec_uncertainty_rising:
  assumes "list_all (\<lambda>m. 0 \<le> m) (slopes c)"
  shows "spec_uncertainty torque c =
           Max (set (slopes c)) * (Max (set (z_heights torque c)) - Min (set (z_heights torque c)))"
proof -
  from assms have "map abs (slopes c) = slopes c"
    by (intro map_idI) (simp add: list_all_iff)
  then show ?thesis by (simp add: spec_uncertainty_def)
qed

section \<open>Uncertainty and steepest slope\<close>

text \<open>
  C1: for every cell and torque level the uncertainty is the steepest slope times the range of
  the Z-heights, the steepest slope being the largest absolute value of the cell's slopes. The
  loop takes the largest slope itself, not the largest magnitude: on a cell with slopes -5 and
  -2 (intercepts 0) at torque 10 the Z-heights are -2 and -5, the range is 3, and the row's
  uncertainty is -2 * 3 = -6, where the stated formula gives 5 * 3 = 15.
\<close>

theorem uncertainty_falling_cell:
  "analyze_cell_uncertainty
       \<lparr>cell_equations = falling_cell, torque_levels = [10], results_data = []\<rparr> =
     Inr \<lparr>cell_equations = falling_cell, torque_levels = [10],
          results_data = [[10, - 2, - 5, - 5, - 2, 3, - 6]]\<rparr>
   \<and> spec_uncertainty 10 falling_cell = 15"
  by (simp add: analyze_cell_uncertainty_def loop_body_def falling_cell_def
      calculate_z_height_def round_ndigits_def py_round_def Let_def
      py_min_def py_max_def steepest_slope_def spec_uncertainty_def slopes_def z_heights_def)

section \<open>Spread of the Z-heights\<close>

text \<open>
  C5: for a cell with at least two trials, every row of the table has its minimum, maximum and
  range taken over the per-trial Z-heights of its torque level, with max \<open>\<ge>\<close> min and
  range \<open>\<ge>\<close> 0; and when no slope is zero the table is computed, one row per torque level.
\<close>

theorem level_statistics_ordered:
  assumes "2 \<le> length (cell_equations s)"
  shows "(\<forall>s'. analyze_cell_uncertainty s = Inr s' \<longrightarrow>
            (\<forall>i<length (results_data s'). \<exists>zs mn mx u.
               results_data s' ! i = torque_levels s ! i # zs @ [mn, mx, mx - mn, u]
               \<and> zs = z_heights (torque_levels s ! i) (cell_equations s)
               \<and> mn = Min (set zs) \<and> mx = Max (set zs)
               \<and> mn \<le> mx \<and> 0 \<le> mx - mn))
         \<and> (nonzero_slopes (cell_equations s) \<longrightarrow>
              (\<exists>s'. analyze_cell_uncertainty s = Inr s'
                 \<and> length (results_data s') = length (torque_levels s)))"
proof (intro conjI allI impI)
  fix s' i
  assume run: "analyze_cell_uncertainty s = Inr s'" and i: "i < length (results_data s')"
  let ?t = "torque_levels s ! i"
  let ?zs = "z_heights ?t (cell_equations s)"
  from run i have "i < length (torque_levels s)" by (simp add: analyze_rows(3))
  with run have row: "results_data s' ! i = table_row ?t (cell_equations s)"
    by (simp add: analyze_rows(3))
  from assms have "cell_equations s \<noteq> []" by auto
  then have "?zs \<noteq> []" by simp
  then have "Min (set ?zs) \<le> Max (set ?zs)" by (simp add: Min_le_iff)
  with row show "\<exists>zs mn mx u.
               results_data s' ! i = torque_levels s ! i # zs @ [mn, mx, mx - mn, u]
               \<and> zs = z_heights (torque_levels s ! i) (cell_equations s)
               \<and> mn = Min (set zs) \<and> mx = Max (set zs)
               \<and> mn \<le> mx \<and> 0 \<le> mx - mn"
    by (simp add: table_row_def Let_def)
next
  assume "nonzero_slopes (cell_equations s)"
  with assms show "\<exists>s'. analyze_cell_uncertainty s = Inr s'
                 \<and> length (results_data s') = length (torque_levels s)"
    by (auto simp: analyze_eq)
qed

theorem level_statistics_ordered_witness:
  "2 \<le> length (cell_equations cell_1_env) \<and>
   (\<exists>s'. analyze_cell_uncertainty cell_1_env = Inr s' \<and>
      (\<exists>zs mn mx u. results_data s' ! 0 = 45 # zs @ [mn, mx, mx - mn, u]
         \<and> mn \<le> mx \<and> 0 \<le> mx - mn))"
proof -
  let ?s' = "cell_1_env\<lparr>results_data := cell_1_results\<rparr>"
  have h: "2 \<le> length (cell_equations cell_1_env)"
    by (simp add: cell_1_env_def cell_1_equations_def)
  have i: "0 < length (results_data ?s')" by (simp add: cell_1_results_def)
  have t: "torque_levels cell_1_env ! 0 = 45" by (simp add: cell_1_env_def)
  from level_statistics_ordered [OF h] cell_1_table i
  have "\<exists>zs mn mx u.
               results_data ?s' ! 0 = torque_levels cell_1_env ! 0 # zs @ [mn, mx, mx - mn, u]
               \<and> zs = z_heights (torque_levels cell_1_env ! 0) (cell_equations cell_1_env)
               \<and> mn = Min (set zs) \<and> mx = Max (set zs)
               \<and> mn \<le> mx \<and> 0 \<le> mx - mn"
    by blast
  then have "\<exists>zs mn mx u. results_data ?s' ! 0 = 45 # zs @ [mn, mx, mx - mn, u]
         \<and> mn \<le> mx \<and> 0 \<le> mx - mn"
    unfolding t by blast
  with h cell_1_table show ?thesis by blast
qed

section \<open>The inputs are left as they were\<close>

text \<open>
  C10: the analysis does not modify its inputs. When it returns, the cell's trial fits and the
  torque levels of the final state are those of the initial state; running it again from the
  final state returns the same state, and the returned table does not depend on what
  \<^verbatim>\<open>results_data\<close> held before.
\<close>

theorem analysis_frame:
  assumes "analyze_cell_uncertainty s = Inr s'"
  shows "cell_equations s' = cell_equations s \<and> torque_levels s' = torque_levels s
           \<and> analyze_cell_uncertainty s' = Inr s'
           \<and> analyze_cell_uncertainty (s\<lparr>results_data := junk\<rparr>) = Inr s'"
  using assms by (auto simp: analyze_eq split: if_splits)

theorem analysis_frame_witness:
  "analyze_cell_uncertainty cell_1_env = Inr (cell_1_env\<lparr>results_data := cell_1_results\<rparr>)
   \<and> cell_equations (cell_1_env\<lparr>results_data := cell_1_results\<rparr>) = cell_1_equations
   \<and> torque_levels (cell_1_env\<lparr>results_data := cell_1_results\<rparr>) = [45, 47, 49, 51, 53]
   \<and> analyze_cell_uncertainty (cell_1_env\<lparr>results_data := cell_1_results\<rparr>) =
       Inr (cell_1_env\<lparr>results_data := cell_1_results\<rparr>)"
  using analysis_frame [OF cell_1_table] cell_1_table by (simp add: cell_1_env_def)

section \<open>The most sensitive trial\<close>

lemma first_match:
  assumes "\<exists>x\<in>set xs. P x"
  shows "\<exists>i<length xs. P (xs ! i) \<and> (\<forall>j<i. \<not> P (xs ! j)) \<and>
           py_index (map f (filter P xs)) 0 = Inr (f (xs ! i))"
  using assms
proof (induction xs)
  case Nil
  then show ?case by simp
next
  case (Cons x xs)
  show ?case
  proof (cases "P x")
    case True
    then have "P ((x # xs) ! 0) \<and> (\<forall>j<0. \<not> P ((x # xs) ! j)) \<and>
           py_index (map f (filter P (x # xs))) 0 = Inr (f ((x # xs) ! 0))"
      by (simp add: py_index_def)
    then show ?thesis by blast
  next
    case False
    with Cons.prems have "\<exists>x\<in>set xs. P x" by simp
    from Cons.IH [OF this] obtain i where i: "i < length xs" "P (xs ! i)"
      "\<forall>j<i. \<not> P (xs ! j)" "py_index (map f (filter P xs)) 0 = Inr (f (xs ! i))" by blast
    have "\<forall>j<Suc i. \<not> P ((x # xs) ! j)"
      using False i(3) by (auto simp: nth_Cons split: nat.splits)
    with i False have "Suc i < length (x # xs) \<and> P ((x # xs) ! Suc i) \<and>
        (\<forall>j<Suc i. \<not> P ((x # xs) ! j)) \<and>
        py_index (map f (filter P (x # xs))) 0 = Inr (f ((x # xs) ! Suc i))"
      by simp
    then show ?thesis by blast
  qed
qed

lemma slopes_mem:
  "m \<in> set (slopes c) \<Longrightarrow> \<exists>x\<in>set c. (case x of (name, eq_data) \<Rightarrow> slope eq_data = m)"
  by (auto simp: slopes_def)



lemma steepest_trial_eq:
  assumes "c \<noteq> []"
  shows "steepest_trial c =
     py_index (map fst (filter (\<lambda>(name, eq_data). slope eq_data = Max (set (slopes c))) c)) 0"
  using assms by (simp add: steepest_trial_def steepest_slope_eq)

text \<open>
  C8: for a cell with at least one trial, the trial reported as most sensitive is the first one,
  in the cell's trial order, whose slope equals the cell's largest slope: no earlier trial has
  that slope, so among trials that share it the first is taken. The selection depends on the
  cell's fits alone, and the analysis leaves them unchanged, so it is the same before and after
  the table is computed.
\<close>

theorem steepest_trial_first:
  assumes "cell_equations s \<noteq> []"
  shows "\<exists>i<length (cell_equations s).
           steepest_trial (cell_equations s) = Inr (fst (cell_equations s ! i))
           \<and> slope (snd (cell_equations s ! i)) = Max (set (slopes (cell_equations s)))
           \<and> (\<forall>j<i. slope (snd (cell_equations s ! j)) \<noteq> Max (set (slopes (cell_equations s))))
           \<and> (\<forall>s'. analyze_cell_uncertainty s = Inr s' \<longrightarrow>
                 steepest_trial (cell_equations s') = steepest_trial (cell_equations s))"
proof -
  define c where "c = cell_equations s"
  define M where "M = Max (set (slopes c))"
  define P where "P = (\<lambda>(name :: string, eq_data :: TrialFit). slope eq_data = M)"
  have P: "\<And>x. P x \<longleftrightarrow> slope (snd x) = M" by (simp add: P_def case_prod_beta)
  from assms have "c \<noteq> []" by (simp add: c_def)
  then have "M \<in> set (slopes c)" unfolding M_def by (intro Max_in) simp_all
  then have "\<exists>x\<in>set c. P x" unfolding P_def by (rule slopes_mem)
  from first_match [OF this, of fst] obtain i where i: "i < length c" "P (c ! i)"
    "\<forall>j<i. \<not> P (c ! j)" "py_index (map fst (filter P c)) 0 = Inr (fst (c ! i))"
    by (elim exE conjE)
  have 1: "steepest_trial c = Inr (fst (c ! i))"
    unfolding steepest_trial_eq [OF \<open>c \<noteq> []\<close>] M_def [symmetric] P_def [symmetric] by (rule i(4))
  have 2: "slope (snd (c ! i)) = M" using i(2) by (simp only: P)
  have 3: "\<forall>j<i. slope (snd (c ! j)) \<noteq> M" using i(3) by (simp only: P)
  have 4: "\<forall>s'. analyze_cell_uncertainty s = Inr s' \<longrightarrow>
                 steepest_trial (cell_equations s') = steepest_trial c"
  proof (intro allI impI)
    fix s' assume "analyze_cell_uncertainty s = Inr s'"
    then have "cell_equations s' = c" unfolding c_def by (rule analyze_rows(1))
    then show "steepest_trial (cell_equations s') = steepest_trial c" by (simp only:)
  qed
  have "\<exists>i<length c. steepest_trial c = Inr (fst (c ! i)) \<and> slope (snd (c ! i)) = M
           \<and> (\<forall>j<i. slope (snd (c ! j)) \<noteq> M)
           \<and> (\<forall>s'. analyze_cell_uncertainty s = Inr s' \<longrightarrow>
                 steepest_trial (cell_equations s') = steepest_trial c)"
    using i(1) 1 2 3 4 by (intro exI [of _ i] conjI)
  then show ?thesis unfolding M_def c_def .
qed

theorem steepest_trial_first_witness:
  "cell_equations \<lparr>cell_equations = tied_cell, torque_levels = [], results_data = []\<rparr> \<noteq> []
   \<and> slope (snd (tied_cell ! 1)) = slope (snd (tied_cell ! 2))
   \<and> steepest_trial tied_cell = Inr ''Trial 2''"
proof -
  let ?s = "\<lparr>cell_equations = tied_cell, torque_levels = [], results_data = []\<rparr>"
  have h: "cell_equations ?s \<noteq> []" by (simp add: tied_cell_def)
  have M: "Max (set (slopes tied_cell)) = 3" by (simp add: tied_cell_def slopes_def)
  from steepest_trial_first [OF h] obtain i where i: "i < length tied_cell"
      "steepest_trial tied_cell = Inr (fst (tied_cell ! i))"
      "slope (snd (tied_cell ! i)) = 3"
      "\<forall>j<i. slope (snd (tied_cell ! j)) \<noteq> 3"
    unfolding M select_convs by (elim exE conjE)
  from i(1) have "i = 0 \<or> i = 1 \<or> i = 2" by (auto simp: tied_cell_def)
  moreover have "i \<noteq> 0"
  proof
    assume "i = 0"
    with i(3) have "slope (snd (tied_cell ! 0)) = 3" by simp
    then show False by (simp add: tied_cell_def)
  qed
  moreover have "i \<noteq> 2"
  proof
    assume "i = 2"
    with i(4) have "slope (snd (tied_cell ! 1)) \<noteq> 3" by simp
    then show False by (simp add: tied_cell_def)
  qed
  ultimately have "i = 1" by blast
  with i(2) have "steepest_trial tied_cell = Inr ''Trial 2''" by (simp add: tied_cell_def)
  moreover have "slope (snd (tied_cell ! 1)) = slope (snd (tied_cell ! 2))"
    by (simp add: tied_cell_def)
  ultimately show ?thesis using h by (intro conjI)
qed

section \<open>Threshold classification\<close>

lemma status_per_torque_cases:
  "(status_per_torque u = ''LOW'' \<longleftrightarrow> u < 2 / 10)"
  "(status_per_torque u = ''MEDIUM'' \<longleftrightarrow> 2 / 10 \<le> u \<and> u < 5 / 10)"
  "(status_per_torque u = ''HIGH'' \<longleftrightarrow> 5 / 10 \<le> u)"
  unfolding status_per_torque_def by (cases "u < 2 / 10"; cases "u < 5 / 10"; simp)+

lemma status_performance_cases:
  "(status_performance m = ''EXCELLENT'' \<longleftrightarrow> m < 5)"
  "(status_performance m = ''GOOD'' \<longleftrightarrow> 5 \<le> m \<and> m < 10)"
  "(status_performance m = ''ACCEPTABLE'' \<longleftrightarrow> 10 \<le> m \<and> m < 20)"
  "(status_performance m = ''NEEDS ATTENTION'' \<longleftrightarrow> 20 \<le> m)"
  unfolding status_performance_def
  by (cases "m < 5"; cases "m < 10"; cases "m < 20"; simp)+

lemma status_examples:
  "status_per_torque (15 / 100) = ''LOW''" "status_performance 7 = ''GOOD''"
  by (simp_all add: status_per_torque_def status_performance_def)


text \<open>
  C6: an uncertainty of 0.15 is labelled LOW by the per-level scheme and an uncertainty of 7.0 is
  labelled GOOD by the per-cell scheme; each scheme gives the label of the first strict upper
  threshold the value is below (0.2, 0.5; 5, 10, 20), and the last label otherwise.
\<close>

theorem status_thresholds:
  "status_per_torque (15 / 100) = ''LOW'' \<and> status_performance 7 = ''GOOD''
   \<and> (status_per_torque u = ''LOW'' \<longleftrightarrow> u < 2 / 10)
   \<and> (status_per_torque u = ''MEDIUM'' \<longleftrightarrow> 2 / 10 \<le> u \<and> u < 5 / 10)
   \<and> (status_per_torque u = ''HIGH'' \<longleftrightarrow> 5 / 10 \<le> u)
   \<and> (status_performance m = ''EXCELLENT'' \<longleftrightarrow> m < 5)
   \<and> (status_performance m = ''GOOD'' \<longleftrightarrow> 5 \<le> m \<and> m < 10)
   \<and> (status_performance m = ''ACCEPTABLE'' \<longleftrightarrow> 10 \<le> m \<and> m < 20)
   \<and> (status_performance m = ''NEEDS ATTENTION'' \<longleftrightarrow> 20 \<le> m)"
  by (intro conjI status_examples status_per_torque_cases status_performance_cases)

section \<open>Binary64 rounding\<close>

lemma pow2_powi: "pow2 e = 2 powi e"
  by (simp add: pow2_def power_int_def power_inverse [symmetric] inverse_eq_divide power_one_over)

lemma pow2_pos: "0 < pow2 e"
  by (simp add: pow2_powi)

lemma pow2_Suc: "pow2 (e + 1) = 2 * pow2 e"
  by (simp add: pow2_powi power_int_add)

lemma pow2_pred: "pow2 (e - 1) = pow2 e / 2"
  using pow2_Suc [of "e - 1"] by simp

lemma pow2_diff: "pow2 (e - n) = pow2 e / pow2 n"
  by (simp add: pow2_powi power_int_diff)

lemma pow2_53: "pow2 53 = 2 ^ 53" and pow2_m1075: "pow2 (- 1075) = 1 / 2 ^ 1075"
  by (simp_all add: pow2_def)

lemma expo_bracket: "0 < x \<Longrightarrow> pow2 (expo x) \<le> x \<and> x < pow2 (expo x + 1)"
proof (induction x rule: expo.induct)
  case (1 x)
  show ?case
  proof (cases "2 \<le> x")
    case True
    then have e: "expo x = expo (x / 2) + 1" by (subst expo.simps) simp
    from 1(1) [OF True] 1(3) have "pow2 (expo (x / 2)) \<le> x / 2 \<and> x / 2 < pow2 (expo (x / 2) + 1)"
      by simp
    then show ?thesis unfolding e pow2_Suc by simp
  next
    case False
    show ?thesis
    proof (cases "x < 1")
      case True
      with False 1(3) have e: "expo x = expo (x * 2) - 1" by (subst expo.simps) simp
      from 1(2) [OF False] True 1(3)
      have "pow2 (expo (x * 2)) \<le> x * 2 \<and> x * 2 < pow2 (expo (x * 2) + 1)" by simp
      then show ?thesis unfolding e pow2_pred by (simp add: pow2_Suc)
    next
      case ge: False
      with False have e: "expo x = 0" by (subst expo.simps) simp
      from False ge show ?thesis unfolding e by (simp add: pow2_def)
    qed
  qed
qed

lemma fl_zero [simp]: "fl 0 = 0"
  by (simp add: fl_def)

lemma fl_half_ulp:
  assumes "x \<noteq> 0"
  shows "\<bar>fl x - x\<bar> \<le> pow2 (max (expo \<bar>x\<bar>) (- 1022) - 52) / 2"
proof -
  let ?u = "pow2 (max (expo \<bar>x\<bar>) (- 1022) - 52)"
  have u: "0 < ?u" by (rule pow2_pos)
  have "fl x - x = (of_int (py_round (x / ?u)) - x / ?u) * ?u"
    using assms u by (simp add: fl_def Let_def field_simps)
  then have "\<bar>fl x - x\<bar> = \<bar>of_int (py_round (x / ?u)) - x / ?u\<bar> * ?u"
    using u by (simp add: abs_mult)
  also have "\<dots> \<le> (1 / 2) * ?u"
    by (rule mult_right_mono) (use u py_round_near [of "x / ?u"] in simp_all)
  finally show ?thesis by simp
qed

lemma fl_error: "\<bar>fl x - x\<bar> \<le> \<bar>x\<bar> / 2 ^ 53 + 1 / 2 ^ 1075"
proof (cases "x = 0")
  case True
  then show ?thesis by simp
next
  case False
  then have pos: "0 < \<bar>x\<bar>" by simp
  note h = fl_half_ulp [OF False]
  show ?thesis
  proof (cases "- 1022 \<le> expo \<bar>x\<bar>")
    case True
    then have m: "max (expo \<bar>x\<bar>) (- 1022) = expo \<bar>x\<bar>" by simp
    have "pow2 (expo \<bar>x\<bar> - 52) / 2 = pow2 (expo \<bar>x\<bar> - 53)"
      using pow2_pred [of "expo \<bar>x\<bar> - 52"] by simp
    also have "\<dots> = pow2 (expo \<bar>x\<bar>) / 2 ^ 53" by (simp add: pow2_diff pow2_53)
    also have "\<dots> \<le> \<bar>x\<bar> / 2 ^ 53"
      using expo_bracket [OF pos] by (simp add: divide_right_mono)
    finally have "pow2 (expo \<bar>x\<bar> - 52) / 2 \<le> \<bar>x\<bar> / 2 ^ 53" .
    with h show ?thesis unfolding m by simp
  next
    case False
    then have m: "max (expo \<bar>x\<bar>) (- 1022) = - 1022" by simp
    have "pow2 (- 1022 - 52) / 2 = pow2 (- 1075)" using pow2_pred [of "- 1074"] by simp
    with h have "\<bar>fl x - x\<bar> \<le> 1 / 2 ^ 1075" unfolding m by (simp add: pow2_m1075)
    moreover have "0 \<le> \<bar>x\<bar> / 2 ^ 53" by simp
    ultimately show ?thesis by linarith
  qed
qed

lemmas fl_eval = fl_def expo.simps py_round_def Let_def pow2_def

lemma round_ndigits_f64_3:
  "round_ndigits_f64 x 3 = fl (of_int (py_round (x * 1000)) / 1000)"
  by (simp add: round_ndigits_f64_def)

lemma np_round_3: "np_round x 3 = fl (of_int (py_round (fl (x * 1000))) / 1000)"
  by (simp add: np_round_def)

lemma py_round_grid_near: "\<bar>of_int (py_round (x * 1000)) / 1000 - x\<bar> \<le> 1 / 2000"
  using round_ndigits_near [of x] by (simp add: round_ndigits_grid)

lemma py_round_grid_tie:
  "\<bar>of_int (py_round (x * 1000)) / 1000 - x\<bar> = 1 / 2000 \<Longrightarrow> even (py_round (x * 1000))"
  using round_ndigits_tie [of x] by (simp add: round_ndigits_grid)

lemma np_grid_near:
  "\<bar>of_int (py_round (fl (x * 1000))) / 1000 - x\<bar>
     \<le> 1 / 2000 + \<bar>x\<bar> / 2 ^ 53 + 1 / (1000 * 2 ^ 1075)"
proof -
  let ?y = "fl (x * 1000)"
  have 1: "\<bar>of_int (py_round ?y) - ?y\<bar> \<le> 1 / 2" by (rule py_round_near)
  have "\<bar>?y - x * 1000\<bar> \<le> \<bar>x * 1000\<bar> / 2 ^ 53 + 1 / 2 ^ 1075" by (rule fl_error)
  then have 2: "\<bar>?y - x * 1000\<bar> \<le> 1000 * \<bar>x\<bar> / 2 ^ 53 + 1 / 2 ^ 1075"
    by (simp add: abs_mult)
  have "\<bar>of_int (py_round ?y) - x * 1000\<bar> \<le> 1 / 2 + 1000 * \<bar>x\<bar> / 2 ^ 53 + 1 / 2 ^ 1075"
    using 1 2 by linarith
  then have "\<bar>(of_int (py_round ?y) - x * 1000) / 1000\<bar>
      \<le> (1 / 2 + 1000 * \<bar>x\<bar> / 2 ^ 53 + 1 / 2 ^ 1075) / 1000"
    by (simp only: abs_divide abs_numeral divide_right_mono zero_le_numeral)
  then show ?thesis by (simp add: field_simps)
qed

lemma round_ndigits_f64_error:
  "\<bar>round_ndigits_f64 q 3 - q\<bar>
     \<le> 1 / 2000 + 3 * \<bar>q\<bar> / 2 ^ 53 + 1 / (2000 * 2 ^ 53) + 2 / 2 ^ 1075"
proof -
  let ?g = "of_int (py_round (q * 1000)) / 1000 :: real"
  have g: "\<bar>?g - q\<bar> \<le> 1 / 2000" by (rule py_round_grid_near)
  have z: "\<bar>fl ?g - ?g\<bar> \<le> \<bar>?g\<bar> / 2 ^ 53 + 1 / 2 ^ 1075" by (rule fl_error)
  from g have "\<bar>?g\<bar> \<le> \<bar>q\<bar> + 1 / 2000" by linarith
  then have "\<bar>?g\<bar> / 2 ^ 53 \<le> (\<bar>q\<bar> + 1 / 2000) / 2 ^ 53"
    by (rule divide_right_mono) simp
  then have "\<bar>?g\<bar> / 2 ^ 53 \<le> \<bar>q\<bar> / 2 ^ 53 + 1 / (2000 * 2 ^ 53)"
    by (simp add: add_divide_distrib)
  with g z have "\<bar>fl ?g - q\<bar> \<le> 1 / 2000 + \<bar>q\<bar> / 2 ^ 53 + 1 / (2000 * 2 ^ 53) + 1 / 2 ^ 1075"
    by linarith
  moreover have "\<bar>q\<bar> / 2 ^ 53 \<le> 3 * \<bar>q\<bar> / 2 ^ 53" by simp
  moreover have "1 / 2 ^ 1075 \<le> (2 / 2 ^ 1075 :: real)" by simp
  ultimately show ?thesis unfolding round_ndigits_f64_3 by linarith
qed

lemma np_round_error:
  "\<bar>np_round q 3 - q\<bar>
     \<le> 1 / 2000 + 3 * \<bar>q\<bar> / 2 ^ 53 + 1 / (2000 * 2 ^ 53) + 2 / 2 ^ 1075"
proof -
  let ?g = "of_int (py_round (fl (q * 1000))) / 1000 :: real"
  have g: "\<bar>?g - q\<bar> \<le> 1 / 2000 + \<bar>q\<bar> / 2 ^ 53 + 1 / (1000 * 2 ^ 1075)" by (rule np_grid_near)
  have z: "\<bar>fl ?g - ?g\<bar> \<le> \<bar>?g\<bar> / 2 ^ 53 + 1 / 2 ^ 1075" by (rule fl_error)
  from g have "\<bar>?g\<bar> \<le> \<bar>q\<bar> + 1 / 2000 + \<bar>q\<bar> / 2 ^ 53 + 1 / (1000 * 2 ^ 1075)" by linarith
  then have "\<bar>?g\<bar> / 2 ^ 53 \<le> (\<bar>q\<bar> + 1 / 2000 + \<bar>q\<bar> / 2 ^ 53 + 1 / (1000 * 2 ^ 1075)) / 2 ^ 53"
    by (rule divide_right_mono) simp
  then have "\<bar>?g\<bar> / 2 ^ 53
      \<le> \<bar>q\<bar> / 2 ^ 53 + 1 / (2000 * 2 ^ 53) + \<bar>q\<bar> / 2 ^ 53 / 2 ^ 53 + 1 / (1000 * 2 ^ 1075) / 2 ^ 53"
    by (simp add: add_divide_distrib)
  moreover have "x / 2 ^ 53 \<le> x" if "0 \<le> x" for x :: real
    using that by (simp add: field_simps)
  then have "\<bar>q\<bar> / 2 ^ 53 / 2 ^ 53 \<le> \<bar>q\<bar> / 2 ^ 53" by simp
  moreover have "1 / (1000 * 2 ^ 1075) / 2 ^ 53 + 1 / (1000 * 2 ^ 1075) \<le> (1 / 2 ^ 1075 :: real)"
    by simp
  moreover have "\<bar>q\<bar> / 2 ^ 53 + \<bar>q\<bar> / 2 ^ 53 + \<bar>q\<bar> / 2 ^ 53 = 3 * \<bar>q\<bar> / 2 ^ 53" by simp
  moreover have "1 / 2 ^ 1075 + 1 / 2 ^ 1075 = (2 / 2 ^ 1075 :: real)" by simp
  ultimately show ?thesis using g z unfolding np_round_3 by linarith
qed

lemma round_trip_bound:
  fixes s t i z :: real
  assumes s: "s \<noteq> 0"
    and z: "\<bar>z - fl (fl (t - i) / s)\<bar>
        \<le> 1 / 2000 + 3 * \<bar>fl (fl (t - i) / s)\<bar> / 2 ^ 53 + 1 / (2000 * 2 ^ 53) + 2 / 2 ^ 1075"
  shows "\<bar>s * z + i - t\<bar>
     \<le> \<bar>s\<bar> * (5 / 10000) + (\<bar>t - i\<bar> + \<bar>s\<bar>) / 2 ^ 50 + (1 + \<bar>s\<bar>) / 2 ^ 1073"
proof -
  define d where "d = fl (t - i)"
  define q where "q = fl (d / s)"
  define S where "S = \<bar>s\<bar>"
  define A where "A = \<bar>t - i\<bar>"
  define D where "D = \<bar>d\<bar>"
  define P where "P = S * \<bar>q\<bar>"
  define E1 where "E1 = \<bar>d - (t - i)\<bar>"
  define E2 where "E2 = S * \<bar>q - d / s\<bar>"
  define E3 where "E3 = S * \<bar>z - q\<bar>"
  have S: "0 < S" using s by (simp add: S_def)
  have SD: "S * \<bar>d / s\<bar> = D" using s by (simp add: S_def D_def abs_divide)
  have a: "E1 \<le> A / 2 ^ 53 + 1 / 2 ^ 1075"
    unfolding E1_def A_def d_def by (rule fl_error)
  have "\<bar>q - d / s\<bar> \<le> \<bar>d / s\<bar> / 2 ^ 53 + 1 / 2 ^ 1075"
    unfolding q_def by (rule fl_error)
  then have "S * \<bar>q - d / s\<bar> \<le> S * (\<bar>d / s\<bar> / 2 ^ 53 + 1 / 2 ^ 1075)"
    using S by (simp add: mult_left_mono)
  then have b: "E2 \<le> D / 2 ^ 53 + S / 2 ^ 1075"
    unfolding E2_def using SD by (simp add: algebra_simps)
  have "\<bar>q\<bar> \<le> \<bar>d / s\<bar> + \<bar>q - d / s\<bar>" by linarith
  then have "S * \<bar>q\<bar> \<le> S * (\<bar>d / s\<bar> + \<bar>q - d / s\<bar>)" using S by (simp add: mult_left_mono)
  then have p: "P \<le> D + E2" unfolding P_def E2_def using SD by (simp add: algebra_simps)
  from z have "\<bar>z - q\<bar> \<le> 1 / 2000 + 3 * \<bar>q\<bar> / 2 ^ 53 + 1 / (2000 * 2 ^ 53) + 2 / 2 ^ 1075"
    by (simp add: q_def d_def)
  then have "S * \<bar>z - q\<bar> \<le> S * (1 / 2000 + 3 * \<bar>q\<bar> / 2 ^ 53 + 1 / (2000 * 2 ^ 53) + 2 / 2 ^ 1075)"
    using S by (simp add: mult_left_mono)
  also have "\<dots> = S / 2000 + 3 * P / 2 ^ 53 + S / (2000 * 2 ^ 53) + 2 * S / 2 ^ 1075"
    unfolding P_def by (simp add: algebra_simps)
  finally have c: "E3 \<le> S / 2000 + 3 * P / 2 ^ 53 + S / (2000 * 2 ^ 53) + 2 * S / 2 ^ 1075"
    unfolding E3_def .
  have dA: "D \<le> A + E1" unfolding D_def A_def E1_def by linarith
  have "s * z + i - t = s * (z - q) + s * (q - d / s) + (d - (t - i))"
    using s by (simp add: field_simps)
  then have "\<bar>s * z + i - t\<bar> \<le> \<bar>s * (z - q)\<bar> + \<bar>s * (q - d / s)\<bar> + \<bar>d - (t - i)\<bar>"
    by linarith
  then have r: "\<bar>s * z + i - t\<bar> \<le> E3 + E2 + E1"
    unfolding E3_def E2_def E1_def S_def by (simp add: abs_mult)
  have nn: "0 \<le> A" "0 \<le> D" "0 \<le> E1" "0 \<le> E2" "0 \<le> P"
    unfolding A_def D_def E1_def E2_def P_def using S by simp_all
  have "E3 + E2 + E1 \<le> S * (5 / 10000) + (A + S) / 2 ^ 50 + (1 + S) / 2 ^ 1073"
    using a b c p dA nn S by (simp add: field_simps)
  with r show ?thesis unfolding S_def A_def by linarith
qed

lemma cell_1_trial_1_z_height:
  "fl (117200 / 1000) \<noteq> 0"
  "calculate_z_height_f64 45 (fl (117200 / 1000)) (fl (- 7722002 / 1000)) = Inr (fl (66271 / 1000))"
  "calculate_z_height_np 45 (fl (117200 / 1000)) (fl (- 7722002 / 1000)) = Finite (fl (66271 / 1000))"
  by (simp_all add: calculate_z_height_f64_def round_ndigits_f64_def calculate_z_height_np_def
      np_truediv_def np_round_ndigits_def np_round_def fl_eval)

section \<open>The inversion in binary64\<close>

text \<open>Where the exact quotient is a decimal tie, the binary64 quotient falls on one side of
  it: -22.4995 rounds to -22.499, 93.9695 to 93.969, and 1 / 2000 to 0.001 with Python floats
  but to 0 with numpy's scaling; the exactly representable 0.0625 is a true tie and goes to the
  even 0.062.\<close>

lemma calculate_z_height_f64_near_ties:
  "calculate_z_height_f64 45 2 (fl (89999 / 1000)) = Inr (fl (- 22499 / 1000))"
  "calculate_z_height_f64 49 92 (fl (- 8596194 / 1000)) = Inr (fl (93969 / 1000))"
  "calculate_z_height_f64 1 2000 0 = Inr (fl (1 / 1000))"
  "calculate_z_height_np 1 2000 0 = Finite 0"
  "calculate_z_height_f64 (1 / 16) 1 0 = Inr (fl (62 / 1000))"
  by (simp_all add: calculate_z_height_f64_def round_ndigits_f64_def calculate_z_height_np_def
      np_truediv_def np_round_ndigits_def np_round_def fl_eval)

text \<open>
  C2: for a nonzero slope, \<^verbatim>\<open>calculate_z_height\<close> returns the quotient
  \<^verbatim>\<open>(torque - intercept) / slope\<close>, as the machine computes it, rounded to three decimal places.
  With Python floats the result is the binary64 number nearest to \<open>k / 1000\<close>, where \<open>k / 1000\<close>
  is at most half a thousandth away from the computed quotient and \<open>k\<close> is even when the
  quotient lies exactly halfway. With a numpy scalar as torque the result is again the binary64
  number nearest to some \<open>k / 1000\<close>, which is half a thousandth away from the computed quotient
  up to the one rounding of \<^verbatim>\<open>x * 1000\<close>.
\<close>

theorem calculate_z_height_f64_rounds:
  assumes "slope' \<noteq> 0"
  shows "(\<exists>k::int. calculate_z_height_f64 torque slope' intercept' = Inr (fl (of_int k / 1000))
            \<and> \<bar>of_int k / 1000 - fl (fl (torque - intercept') / slope')\<bar> \<le> 1 / 2000
            \<and> (\<bar>of_int k / 1000 - fl (fl (torque - intercept') / slope')\<bar> = 1 / 2000
                  \<longrightarrow> even k))
       \<and> (\<exists>k::int. calculate_z_height_np torque slope' intercept' = Finite (fl (of_int k / 1000))
            \<and> \<bar>of_int k / 1000 - fl (fl (torque - intercept') / slope')\<bar>
                  \<le> 1 / 2000 + \<bar>fl (fl (torque - intercept') / slope')\<bar> / 2 ^ 53
                       + 1 / (1000 * 2 ^ 1075))"
proof (rule conjI)
  let ?q = "fl (fl (torque - intercept') / slope')"
  let ?k = "py_round (?q * 1000)"
  have "calculate_z_height_f64 torque slope' intercept' = Inr (fl (of_int ?k / 1000))"
    using assms by (simp add: calculate_z_height_f64_def round_ndigits_f64_3)
  moreover have "\<bar>of_int ?k / 1000 - ?q\<bar> \<le> 1 / 2000" by (rule py_round_grid_near)
  moreover have "\<bar>of_int ?k / 1000 - ?q\<bar> = 1 / 2000 \<longrightarrow> even ?k"
    using py_round_grid_tie [of ?q] by blast
  ultimately show "\<exists>k::int. calculate_z_height_f64 torque slope' intercept' = Inr (fl (of_int k / 1000))
            \<and> \<bar>of_int k / 1000 - ?q\<bar> \<le> 1 / 2000
            \<and> (\<bar>of_int k / 1000 - ?q\<bar> = 1 / 2000 \<longrightarrow> even k)"
    by blast
next
  let ?q = "fl (fl (torque - intercept') / slope')"
  let ?k = "py_round (fl (?q * 1000))"
  have "calculate_z_height_np torque slope' intercept' = Finite (fl (of_int ?k / 1000))"
    using assms
    by (simp add: calculate_z_height_np_def np_truediv_def np_round_ndigits_def np_round_3)
  moreover have "\<bar>of_int ?k / 1000 - ?q\<bar> \<le> 1 / 2000 + \<bar>?q\<bar> / 2 ^ 53 + 1 / (1000 * 2 ^ 1075)"
    by (rule np_grid_near)
  ultimately show "\<exists>k::int. calculate_z_height_np torque slope' intercept' = Finite (fl (of_int k / 1000))
            \<and> \<bar>of_int k / 1000 - ?q\<bar> \<le> 1 / 2000 + \<bar>?q\<bar> / 2 ^ 53 + 1 / (1000 * 2 ^ 1075)"
    by blast
qed

theorem calculate_z_height_f64_rounds_witness:
  "fl (117200 / 1000) \<noteq> 0
   \<and> (\<exists>k::int. calculate_z_height_f64 45 (fl (117200 / 1000)) (fl (- 7722002 / 1000))
                  = Inr (fl (of_int k / 1000))
          \<and> \<bar>of_int k / 1000 - fl (fl (45 - fl (- 7722002 / 1000)) / fl (117200 / 1000))\<bar>
               \<le> 1 / 2000)
   \<and> calculate_z_height_f64 45 (fl (117200 / 1000)) (fl (- 7722002 / 1000))
        = Inr (fl (66271 / 1000))
   \<and> calculate_z_height_np 45 (fl (117200 / 1000)) (fl (- 7722002 / 1000))
        = Finite (fl (66271 / 1000))"
proof -
  note h = cell_1_trial_1_z_height(1)
  from calculate_z_height_f64_rounds [OF h, of 45 "fl (- 7722002 / 1000)"]
  have "\<exists>k::int. calculate_z_height_f64 45 (fl (117200 / 1000)) (fl (- 7722002 / 1000))
                  = Inr (fl (of_int k / 1000))
          \<and> \<bar>of_int k / 1000 - fl (fl (45 - fl (- 7722002 / 1000)) / fl (117200 / 1000))\<bar>
               \<le> 1 / 2000"
    by blast
  with h cell_1_trial_1_z_height(2,3) show ?thesis by (intro conjI)
qed

lemma tiny_slope_inputs:
  "fl (1 / 10 ^ 11) = 6189700196426901 / 2 ^ 89"
  "fl (- 600856 / 100) = - 6606481586189763 / 2 ^ 40"
  by (simp_all add: fl_eval)

lemma tiny_slope_z_height:
  "calculate_z_height_f64 45 (6189700196426901 / 2 ^ 89) (- 6606481586189763 / 2 ^ 40)
     = Inr (4842848000000001 / 2 ^ 3)"
  by (simp add: calculate_z_height_f64_def round_ndigits_f64_def fl_eval)

text \<open>
  C4, as stated, does not hold: for torque 45, slope 1e-11 and intercept -6008.56 the returned
  Z-height is 605356000000000.125, and the residual \<open>slope * z + intercept - torque\<close> exceeds
  \<open>\<bar>slope\<bar> * 0.0005\<close> (it is about 4.8e-13 against 5e-15): at that magnitude binary64 numbers
  are 0.125 apart, so the quotient itself is off by more than a thousandth.
\<close>

theorem round_trip_tiny_slope:
  "calculate_z_height_f64 45 (fl (1 / 10 ^ 11)) (fl (- 600856 / 100))
     = Inr (4842848000000001 / 2 ^ 3)
   \<and> \<not> \<bar>fl (1 / 10 ^ 11) * (4842848000000001 / 2 ^ 3) + fl (- 600856 / 100) - 45\<bar>
         \<le> \<bar>fl (1 / 10 ^ 11)\<bar> * (5 / 10000)"
  unfolding tiny_slope_inputs using tiny_slope_z_height by simp

text \<open>
  C4, amended: for a nonzero slope the forward line equation applied to the returned Z-height
  gives the torque back up to the rounding of the Z-height to three decimal places and the
  floating-point rounding of the subtraction, the division and the result: the residual
  \<open>slope * z + intercept - torque\<close> is at most
  \<open>\<bar>slope\<bar> * 0.0005 + (\<bar>torque - intercept\<bar> + \<bar>slope\<bar>) / 2 ^ 50 + (1 + \<bar>slope\<bar>) / 2 ^ 1073\<close>
  in absolute value, with Python floats and with numpy scalars.
\<close>

theorem calculate_z_height_f64_round_trip:
  assumes "slope' \<noteq> 0"
  shows "(\<exists>z. calculate_z_height_f64 torque slope' intercept' = Inr z
            \<and> \<bar>slope' * z + intercept' - torque\<bar>
                 \<le> \<bar>slope'\<bar> * (5 / 10000) + (\<bar>torque - intercept'\<bar> + \<bar>slope'\<bar>) / 2 ^ 50
                      + (1 + \<bar>slope'\<bar>) / 2 ^ 1073)
       \<and> (\<exists>z. calculate_z_height_np torque slope' intercept' = Finite z
            \<and> \<bar>slope' * z + intercept' - torque\<bar>
                 \<le> \<bar>slope'\<bar> * (5 / 10000) + (\<bar>torque - intercept'\<bar> + \<bar>slope'\<bar>) / 2 ^ 50
                      + (1 + \<bar>slope'\<bar>) / 2 ^ 1073)"
proof (rule conjI)
  let ?q = "fl (fl (torque - intercept') / slope')"
  have "calculate_z_height_f64 torque slope' intercept' = Inr (round_ndigits_f64 ?q 3)"
    using assms by (simp add: calculate_z_height_f64_def)
  moreover have "\<bar>slope' * round_ndigits_f64 ?q 3 + intercept' - torque\<bar>
                 \<le> \<bar>slope'\<bar> * (5 / 10000) + (\<bar>torque - intercept'\<bar> + \<bar>slope'\<bar>) / 2 ^ 50
                      + (1 + \<bar>slope'\<bar>) / 2 ^ 1073"
    by (rule round_trip_bound [OF assms round_ndigits_f64_error])
  ultimately show "\<exists>z. calculate_z_height_f64 torque slope' intercept' = Inr z
            \<and> \<bar>slope' * z + intercept' - torque\<bar>
                 \<le> \<bar>slope'\<bar> * (5 / 10000) + (\<bar>torque - intercept'\<bar> + \<bar>slope'\<bar>) / 2 ^ 50
                      + (1 + \<bar>slope'\<bar>) / 2 ^ 1073"
    by blast
next
  let ?q = "fl (fl (torque - intercept') / slope')"
  have "calculate_z_height_np torque slope' intercept' = Finite (np_round ?q 3)"
    using assms by (simp add: calculate_z_height_np_def np_truediv_def np_round_ndigits_def)
  moreover have "\<bar>slope' * np_round ?q 3 + intercept' - torque\<bar>
                 \<le> \<bar>slope'\<bar> * (5 / 10000) + (\<bar>torque - intercept'\<bar> + \<bar>slope'\<bar>) / 2 ^ 50
                      + (1 + \<bar>slope'\<bar>) / 2 ^ 1073"
    by (rule round_trip_bound [OF assms np_round_error])
  ultimately show "\<exists>z. calculate_z_height_np torque slope' intercept' = Finite z
            \<and> \<bar>slope' * z + intercept' - torque\<bar>
                 \<le> \<bar>slope'\<bar> * (5 / 10000) + (\<bar>torque - intercept'\<bar> + \<bar>slope'\<bar>) / 2 ^ 50
                      + (1 + \<bar>slope'\<bar>) / 2 ^ 1073"
    by blast
qed

theorem calculate_z_height_f64_round_trip_witness:
  "fl (117200 / 1000) \<noteq> 0
   \<and> (\<exists>z. calculate_z_height_f64 45 (fl (117200 / 1000)) (fl (- 7722002 / 1000)) = Inr z
          \<and> \<bar>fl (117200 / 1000) * z + fl (- 7722002 / 1000) - 45\<bar>
               \<le> \<bar>fl (117200 / 1000)\<bar> * (5 / 10000)
                    + (\<bar>45 - fl (- 7722002 / 1000)\<bar> + \<bar>fl (117200 / 1000)\<bar>) / 2 ^ 50
                    + (1 + \<bar>fl (117200 / 1000)\<bar>) / 2 ^ 1073)
   \<and> (\<exists>z. calculate_z_height_np 45 (fl (117200 / 1000)) (fl (- 7722002 / 1000)) = Finite z
          \<and> \<bar>fl (117200 / 1000) * z + fl (- 7722002 / 1000) - 45\<bar>
               \<le> \<bar>fl (117200 / 1000)\<bar> * (5 / 10000)
                    + (\<bar>45 - fl (- 7722002 / 1000)\<bar> + \<bar>fl (117200 / 1000)\<bar>) / 2 ^ 50
                    + (1 + \<bar>fl (117200 / 1000)\<bar>) / 2 ^ 1073)"
proof -
  note h = cell_1_trial_1_z_height(1)
  from calculate_z_height_f64_round_trip [OF h, of 45 "fl (- 7722002 / 1000)"] h
  show ?thesis by (intro conjI) blast+
qed

section \<open>Zero slope\<close>




section \<open>One steepest slope per cell\<close>

lemma ebind_Inr_iff:
  "ebind m f = Inr y \<longleftrightarrow> (\<exists>x. m = Inr x \<and> f x = Inr y)"
  by (cases m) (simp_all add: ebind_def)

lemma loop_body_np_shape:
  assumes "loop_body_np torque cell_eqs = Inr row"
  shows "\<exists>pre mn mx st. steepest_slope cell_eqs = Inr st
           \<and> row = pre @ [mn, mx, np_subtract mx mn, np_multiply st (np_subtract mx mn)]"
proof -
  from assms obtain mn mx st where
      "steepest_slope cell_eqs = Inr st"
      "row = (Finite torque # map (\<lambda>(trial_name, eq_data).
                   calculate_z_height_np torque (slope eq_data) (intercept eq_data)) cell_eqs)
             @ [mn, mx, np_subtract mx mn, np_multiply st (np_subtract mx mn)]"
    by (auto simp: loop_body_np_def Let_def ebind_Inr_iff)
  then show ?thesis by blast
qed

lemma analyze_np_rows:
  assumes "analyze_cell_uncertainty_np cell_eqs torques = Inr rows" and "i < length rows"
  shows "i < length torques \<and> loop_body_np (torques ! i) cell_eqs = Inr (rows ! i)"
  using assms
proof (induction torques arbitrary: rows i)
  case Nil
  then show ?case by simp
next
  case (Cons t ts)
  from Cons.prems(1) obtain row rest where r: "loop_body_np t cell_eqs = Inr row"
      "analyze_cell_uncertainty_np cell_eqs ts = Inr rest" "rows = row # rest"
    by (auto simp: ebind_Inr_iff)
  show ?case
  proof (cases i)
    case 0
    with r show ?thesis by simp
  next
    case (Suc j)
    with Cons.prems(2) r(3) have "j < length rest" by simp
    from Cons.IH [OF r(2) this] Suc r(3) show ?thesis by simp
  qed
qed

lemma np_multiply_error:
  "\<exists>u. np_multiply st (Finite x) = Finite u \<and> \<bar>u - st * x\<bar> \<le> \<bar>st * x\<bar> / 2 ^ 53 + 1 / 2 ^ 1075"
proof (intro exI conjI)
  show "np_multiply st (Finite x) = Finite (fl (st * x))" by (simp add: np_multiply_def)
  show "\<bar>fl (st * x) - st * x\<bar> \<le> \<bar>st * x\<bar> / 2 ^ 53 + 1 / 2 ^ 1075" by (rule fl_error)
qed

lemma cell_1_table_np:
  "analyze_cell_uncertainty_np (as_f64 cell_1_equations) [45, 47, 49, 51, 53] = Inr cell_1_results_np"
  by (simp add: loop_body_np_def as_f64_def cell_1_equations_def cell_1_results_np_def
      calculate_z_height_np_def np_truediv_def np_round_ndigits_def np_round_def
      np_amin_def np_amax_def np_multiply_def steepest_slope_def py_max_def ebind_def fl_eval)

text \<open>
  C9, as stated, does not hold: on Cell 1 of \<^verbatim>\<open>Uncertainity.py\<close> the ranges at torque 45 and 49
  are nonzero, and the ratio of the two uncertainties differs from the ratio of the two ranges
  (as binary64 quotients 1.0653594771241208 against 1.065359477124121), because each
  uncertainty is a rounded product.
\<close>

theorem uncertainty_ratio_cell_1:
  "analyze_cell_uncertainty_np (as_f64 cell_1_equations) [45, 47, 49, 51, 53] = Inr cell_1_results_np
   \<and> py_index (cell_1_results_np ! 0) (- 2) = Inr (Finite (11470105300959 / 2 ^ 46))
   \<and> py_index (cell_1_results_np ! 0) (- 1) = Inr (Finite (5377185365089579 / 2 ^ 48))
   \<and> py_index (cell_1_results_np ! 2) (- 2) = Inr (Finite (10766417859183 / 2 ^ 46))
   \<and> py_index (cell_1_results_np ! 2) (- 1) = Inr (Finite (5047296692384991 / 2 ^ 48))
   \<and> (11470105300959 / 2 ^ 46 :: real) \<noteq> 0 \<and> (10766417859183 / 2 ^ 46 :: real) \<noteq> 0
   \<and> (5377185365089579 / 2 ^ 48) / (5047296692384991 / 2 ^ 48)
        \<noteq> (11470105300959 / 2 ^ 46) / (10766417859183 / 2 ^ 46 :: real)"
proof -
  have "py_index (cell_1_results_np ! 0) (- 2) = Inr (Finite (11470105300959 / 2 ^ 46))"
      "py_index (cell_1_results_np ! 0) (- 1) = Inr (Finite (5377185365089579 / 2 ^ 48))"
      "py_index (cell_1_results_np ! 2) (- 2) = Inr (Finite (10766417859183 / 2 ^ 46))"
      "py_index (cell_1_results_np ! 2) (- 1) = Inr (Finite (5047296692384991 / 2 ^ 48))"
    by (simp_all add: cell_1_results_np_def py_index_def)
  moreover have "(5377185365089579 / 2 ^ 48) / (5047296692384991 / 2 ^ 48)
        \<noteq> (11470105300959 / 2 ^ 46) / (10766417859183 / 2 ^ 46 :: real)"
    by simp
  ultimately show ?thesis using cell_1_table_np by simp
qed

text \<open>
  C9, amended: within one cell the steepest slope used for the uncertainty is the same for every
  torque level, the one value \<^verbatim>\<open>max\<close> gives on the cell's slopes, and every row's uncertainty
  (its last entry) is the binary64 product of that slope with the row's range (its last entry
  but one). For a finite range the uncertainty is the exact product up to one rounding, a
  relative error of at most \<open>2 ^ - 53\<close> (plus \<open>2 ^ - 1075\<close>), so the ratio of two uncertainties
  equals the ratio of the ranges up to those two roundings, not exactly.
\<close>

theorem uncertainty_one_factor:
  assumes "analyze_cell_uncertainty_np cell_eqs torques = Inr rows" and "i < length rows"
  shows "\<exists>st r. steepest_slope cell_eqs = Inr st
           \<and> py_index (rows ! i) (- 2) = Inr r
           \<and> py_index (rows ! i) (- 1) = Inr (np_multiply st r)
           \<and> (\<forall>x. r = Finite x \<longrightarrow>
                 (\<exists>u. np_multiply st r = Finite u
                    \<and> \<bar>u - st * x\<bar> \<le> \<bar>st * x\<bar> / 2 ^ 53 + 1 / 2 ^ 1075))"
proof -
  from analyze_np_rows [OF assms] have "loop_body_np (torques ! i) cell_eqs = Inr (rows ! i)"
    by simp
  from loop_body_np_shape [OF this] obtain pre mn mx st where
      st: "steepest_slope cell_eqs = Inr st"
      and row: "rows ! i = pre @ [mn, mx, np_subtract mx mn, np_multiply st (np_subtract mx mn)]"
    by blast
  let ?r = "np_subtract mx mn"
  have 1: "py_index (rows ! i) (- 2) = Inr ?r" and 2: "py_index (rows ! i) (- 1) = Inr (np_multiply st ?r)"
    unfolding row by (rule py_index_last4)+
  have 3: "\<forall>x. ?r = Finite x \<longrightarrow>
                 (\<exists>u. np_multiply st ?r = Finite u
                    \<and> \<bar>u - st * x\<bar> \<le> \<bar>st * x\<bar> / 2 ^ 53 + 1 / 2 ^ 1075)"
    using np_multiply_error by simp
  from st 1 2 3 show ?thesis by (intro exI conjI)
qed

theorem uncertainty_one_factor_witness:
  "analyze_cell_uncertainty_np (as_f64 cell_1_equations) [45, 47, 49, 51, 53] = Inr cell_1_results_np
   \<and> (\<exists>st u. steepest_slope (as_f64 cell_1_equations) = Inr st
         \<and> py_index (cell_1_results_np ! 0) (- 2) = Inr (Finite (11470105300959 / 2 ^ 46))
         \<and> py_index (cell_1_results_np ! 0) (- 1) = Inr (Finite u)
         \<and> \<bar>u - st * (11470105300959 / 2 ^ 46)\<bar>
              \<le> \<bar>st * (11470105300959 / 2 ^ 46)\<bar> / 2 ^ 53 + 1 / 2 ^ 1075)"
proof -
  have i: "0 < length cell_1_results_np" by (simp add: cell_1_results_np_def)
  have r: "py_index (cell_1_results_np ! 0) (- 2) = Inr (Finite (11470105300959 / 2 ^ 46))"
    by (simp add: cell_1_results_np_def py_index_def)
  from uncertainty_one_factor [OF cell_1_table_np i] obtain st r where
      st: "steepest_slope (as_f64 cell_1_equations) = Inr st"
      and 1: "py_index (cell_1_results_np ! 0) (- 2) = Inr r"
      and 2: "py_index (cell_1_results_np ! 0) (- 1) = Inr (np_multiply st r)"
      and 3: "\<forall>x. r = Finite x \<longrightarrow>
                 (\<exists>u. np_multiply st r = Finite u
                    \<and> \<bar>u - st * x\<bar> \<le> \<bar>st * x\<bar> / 2 ^ 53 + 1 / 2 ^ 1075)"
    by (elim exE conjE)
  from 1 r have req: "r = Finite (11470105300959 / 2 ^ 46)" by simp
  with 3 obtain u where u: "np_multiply st r = Finite u"
      "\<bar>u - st * (11470105300959 / 2 ^ 46)\<bar> \<le> \<bar>st * (11470105300959 / 2 ^ 46)\<bar> / 2 ^ 53 + 1 / 2 ^ 1075"
    by blast
  from 2 u(1) have "py_index (cell_1_results_np ! 0) (- 1) = Inr (Finite u)" by simp
  with st r u(2) cell_1_table_np show ?thesis by blast
qed

end
